theory Spec2Isabelle
  imports Complex_Main
begin

text \<open>
  A model of the retry middleware of the TypeScript fetch library
  (\<^verbatim>\<open>http/typescript/fetch/src/middlewares/retryHandler.ts\<close>): the class
  \<^verbatim>\<open>RetryHandler\<close> with its status and payload checks, its delay computation and its
  retry loop. The effects of the class (invoking the next middleware, drawing random
  numbers, reading the clock, sleeping) are threaded through an explicit state.
\<close>

section \<open>JavaScript numbers\<close>

text \<open>
  A JavaScript \<^verbatim>\<open>number\<close> is modelled as an exact real number, or one of the three
  special values not-a-number, plus infinity and minus infinity. The rounding of
  double arithmetic and the sign of zero are not modelled.
\<close>

datatype jsnum = NaN | PInf | NInf | Fin real

fun isNaN :: "jsnum \<Rightarrow> bool" where
  "isNaN NaN = True"
| "isNaN PInf = False"
| "isNaN NInf = False"
| "isNaN (Fin x) = False"

text \<open>The operator \<^verbatim>\<open>+\<close> on two numbers.\<close>

fun js_add :: "jsnum \<Rightarrow> jsnum \<Rightarrow> jsnum" where
  "js_add NaN y = NaN"
| "js_add x NaN = NaN"
| "js_add PInf NInf = NaN"
| "js_add NInf PInf = NaN"
| "js_add PInf y = PInf"
| "js_add x PInf = PInf"
| "js_add NInf y = NInf"
| "js_add x NInf = NInf"
| "js_add (Fin a) (Fin b) = Fin (a + b)"

fun js_neg :: "jsnum \<Rightarrow> jsnum" where
  "js_neg NaN = NaN"
| "js_neg PInf = NInf"
| "js_neg NInf = PInf"
| "js_neg (Fin a) = Fin (- a)"

text \<open>The operator \<^verbatim>\<open>-\<close> on two numbers.\<close>

definition js_sub :: "jsnum \<Rightarrow> jsnum \<Rightarrow> jsnum" where
  "js_sub x y = js_add x (js_neg y)"

text \<open>The operator \<^verbatim>\<open>/\<close> on two numbers (a zero divisor counts as positive zero).\<close>

fun js_div :: "jsnum \<Rightarrow> jsnum \<Rightarrow> jsnum" where
  "js_div NaN y = NaN"
| "js_div x NaN = NaN"
| "js_div (Fin a) (Fin b) =
     (if b = 0 then (if a = 0 then NaN else if 0 < a then PInf else NInf)
      else Fin (a / b))"
| "js_div (Fin a) PInf = Fin 0"
| "js_div (Fin a) NInf = Fin 0"
| "js_div PInf (Fin b) = (if b < 0 then NInf else PInf)"
| "js_div NInf (Fin b) = (if b < 0 then PInf else NInf)"
| "js_div PInf PInf = NaN"
| "js_div PInf NInf = NaN"
| "js_div NInf PInf = NaN"
| "js_div NInf NInf = NaN"

text \<open>\<^verbatim>\<open>Math.round\<close>: the nearest integer, a tie going up.\<close>

fun Math_round :: "jsnum \<Rightarrow> jsnum" where
  "Math_round NaN = NaN"
| "Math_round PInf = PInf"
| "Math_round NInf = NInf"
| "Math_round (Fin x) = Fin (of_int \<lfloor>x + 1 / 2\<rfloor>)"

text \<open>\<^verbatim>\<open>Math.min\<close> of two numbers: not-a-number as soon as one argument is.\<close>

fun Math_min :: "jsnum \<Rightarrow> jsnum \<Rightarrow> jsnum" where
  "Math_min NaN y = NaN"
| "Math_min x NaN = NaN"
| "Math_min NInf y = NInf"
| "Math_min x NInf = NInf"
| "Math_min PInf y = y"
| "Math_min x PInf = x"
| "Math_min (Fin a) (Fin b) = Fin (min a b)"

text \<open>
  \<^verbatim>\<open>Number(x.toFixed(3))\<close> for a non-negative \<^verbatim>\<open>x\<close>: the multiple of one thousandth
  nearest to \<^verbatim>\<open>x\<close>, the larger one on a tie.
\<close>

definition toFixed3 :: "real \<Rightarrow> real" where
  "toFixed3 x = of_int \<lfloor>x * 1000 + 1 / 2\<rfloor> / 1000"

text \<open>\<^verbatim>\<open>n.toString()\<close> for a non-negative integer \<^verbatim>\<open>n\<close>: its decimal digits.\<close>

definition digit_char :: "nat \<Rightarrow> char" where
  "digit_char d = ''0123456789'' ! d"

fun toString :: "nat \<Rightarrow> string" where
  "toString n =
     (if n < 10 then [digit_char n] else toString (n div 10) @ [digit_char (n mod 10)])"

declare toString.simps [simp del]

section \<open>The environment of the handler\<close>

text \<open>
  The built-in functions the handler calls. \<^verbatim>\<open>Number(s)\<close> and
  \<^verbatim>\<open>new Date(s).getTime()\<close> are functions of the string; \<^verbatim>\<open>Math.random()\<close> and
  \<^verbatim>\<open>Date.now()\<close> answer differently at each call, so the environment gives the
  answer of the call number \<open>k\<close> (counted from zero).
\<close>

record js_env =
  Number_of :: "string \<Rightarrow> jsnum"
  Date_getTime :: "string \<Rightarrow> jsnum"
  Math_random :: "nat \<Rightarrow> real"
  Date_now :: "nat \<Rightarrow> real"

text \<open>
  What the handler has done so far: how many times it invoked the next middleware,
  how many random numbers it drew, how many times it read the clock, and the
  arguments of its calls of \<^verbatim>\<open>sleep\<close>, the oldest first.
\<close>

record io =
  calls :: nat
  draws :: nat
  clock_reads :: nat
  sleeps :: "jsnum list"

section \<open>Requests, responses and options\<close>

text \<open>
  The declarations of \<^verbatim>\<open>FetchRequestInit\<close>, \<^verbatim>\<open>FetchRequestInfo\<close>,
  \<^verbatim>\<open>FetchResponse\<close>, \<^verbatim>\<open>MiddlewareContext\<close>, \<^verbatim>\<open>MiddlewareControl\<close> and
  \<^verbatim>\<open>RetryHandlerOptions\<close> are imported by the handler; the records below hold the
  members the handler reads (\<open>init_method\<close> and \<open>init_headers\<close> are the members
  \<^verbatim>\<open>method\<close> and \<^verbatim>\<open>headers\<close> of the request options). An optional member is an \<open>option\<close>, \<open>None\<close> standing
  for \<^verbatim>\<open>undefined\<close> (or \<^verbatim>\<open>null\<close> for the result of \<^verbatim>\<open>Headers.get\<close>).
\<close>

record FetchRequestInit =
  init_method :: "string option"
  init_headers :: "(string \<times> string) list"

datatype FetchRequestInfo = RequestUrl string | RequestObject string FetchRequestInit

record FetchResponse =
  status :: nat
  headers :: "(string \<Rightarrow> string option) option"

text \<open>
  \<^verbatim>\<open>RetryHandlerOptions\<close>: \<open>maxDelay\<close> is the value of \<^verbatim>\<open>getMaxDelay()\<close>; \<open>maxRetries\<close>
  is a non-negative integer.
\<close>

record RetryHandlerOptions =
  delay :: jsnum
  maxRetries :: nat
  maxDelay :: jsnum
  shouldRetry ::
    "jsnum \<Rightarrow> nat \<Rightarrow> FetchRequestInfo \<Rightarrow> FetchRequestInit option \<Rightarrow> FetchResponse \<Rightarrow> bool"

text \<open>
  \<^verbatim>\<open>context.middlewareControl\<close>: \<open>None\<close> when it is not an instance of
  \<^verbatim>\<open>MiddlewareControl\<close>, otherwise the result of
  \<^verbatim>\<open>getMiddlewareOptions(RetryHandlerOptions)\<close>, itself possibly undefined.
\<close>

record MiddlewareContext =
  request :: FetchRequestInfo
  options :: "FetchRequestInit option"
  response :: "FetchResponse option"
  middlewareControl :: "RetryHandlerOptions option option"

text \<open>
  What a call can end with other than a value: the next middleware throwing (the
  thrown value is carried along), or a \<^verbatim>\<open>TypeError\<close> of the handler's own when it
  reads \<^verbatim>\<open>status\<close> of an undefined response.
\<close>

datatype failure = Thrown string | TypeError

text \<open>
  The handler object: its \<^verbatim>\<open>options\<close> member, the \<^verbatim>\<open>execute\<close> method of its
  \<^verbatim>\<open>next\<close> middleware (the answer of call number \<open>k\<close> on a context: a thrown
  failure or the context as the call left it), and the two functions it imports from
  \<^verbatim>\<open>middlewareUtil\<close>.
\<close>

record RetryHandler =
  handler_options :: RetryHandlerOptions
  next_execute :: "nat \<Rightarrow> MiddlewareContext \<Rightarrow> failure + MiddlewareContext"
  getRequestHeader ::
    "FetchRequestInfo \<Rightarrow> FetchRequestInit option \<Rightarrow> string \<Rightarrow> string option"
  setRequestHeader ::
    "FetchRequestInfo \<Rightarrow> FetchRequestInit option \<Rightarrow> string \<Rightarrow> string \<Rightarrow>
       FetchRequestInfo \<times> FetchRequestInit option"

section \<open>The retry handler\<close>

definition RETRY_STATUS_CODES :: "nat list" where
  "RETRY_STATUS_CODES = [429, 503, 504]"

definition RETRY_ATTEMPT_HEADER :: string where
  "RETRY_ATTEMPT_HEADER = ''Retry-Attempt''"

definition RETRY_AFTER_HEADER :: string where
  "RETRY_AFTER_HEADER = ''Retry-After''"

definition isRetry :: "FetchResponse \<Rightarrow> bool" where
  "isRetry resp = (status resp \<in> set RETRY_STATUS_CODES)"

text \<open>
  The values \<^verbatim>\<open>===\<close> compares in \<^verbatim>\<open>isBuffered\<close>: \<^verbatim>\<open>undefined\<close>, a string, or the
  options object. Strict equality holds between two values of the same kind only.
\<close>

datatype jsval = Undefined | Str string | Obj FetchRequestInit

fun strict_eq :: "jsval \<Rightarrow> jsval \<Rightarrow> bool" where
  "strict_eq Undefined Undefined = True"
| "strict_eq (Str a) (Str b) = (a = b)"
| "strict_eq (Obj a) (Obj b) = (a = b)"
| "strict_eq x y = False"

definition HttpMethod_PUT :: string where "HttpMethod_PUT = ''PUT''"
definition HttpMethod_PATCH :: string where "HttpMethod_PATCH = ''PATCH''"
definition HttpMethod_POST :: string where "HttpMethod_POST = ''POST''"

definition jsval_of_options :: "FetchRequestInit option \<Rightarrow> jsval" where
  "jsval_of_options opts = (case opts of None \<Rightarrow> Undefined | Some init \<Rightarrow> Obj init)"

definition jsval_of_header :: "string option \<Rightarrow> jsval" where
  "jsval_of_header h = (case h of None \<Rightarrow> Undefined | Some v \<Rightarrow> Str v)"

text \<open>
  \<^verbatim>\<open>isBuffered\<close>. The source binds \<^verbatim>\<open>method\<close> to the options object itself
  (\<^verbatim>\<open>const method = options\<close>) and compares that with the three method names.
\<close>

definition isBuffered :: "RetryHandler \<Rightarrow> FetchRequestInfo \<Rightarrow> FetchRequestInit option \<Rightarrow> bool" where
  "isBuffered H req opts =
     (let method_v = jsval_of_options opts;
          isPutPatchOrPost =
            (strict_eq method_v (Str HttpMethod_PUT) \<or> strict_eq method_v (Str HttpMethod_PATCH)
             \<or> strict_eq method_v (Str HttpMethod_POST))
      in if isPutPatchOrPost
         then (let isStream =
                     strict_eq (jsval_of_header (getRequestHeader H req opts ''Content-Type''))
                       (Str ''application/octet-stream'')
               in if isStream then False else True)
         else True)"

definition getExponentialBackOffTime :: "nat \<Rightarrow> jsnum" where
  "getExponentialBackOffTime attempts = Math_round (Fin ((1 / 2) * (2 ^ attempts - 1)))"

text \<open>\<^verbatim>\<open>getRandomness()\<close>: one call of \<^verbatim>\<open>Math.random()\<close>, rounded to three decimals.\<close>

definition getRandomness :: "js_env \<Rightarrow> io \<Rightarrow> real \<times> io" where
  "getRandomness E s = (toFixed3 (Math_random E (draws s)), s\<lparr>draws := draws s + 1\<rparr>)"

text \<open>The constant \<^verbatim>\<open>retryAfter\<close> of \<^verbatim>\<open>getDelay\<close>.\<close>

definition retryAfter :: "FetchResponse \<Rightarrow> string option" where
  "retryAfter resp = (case headers resp of None \<Rightarrow> None | Some h \<Rightarrow> h RETRY_AFTER_HEADER)"

text \<open>
  The value \<^verbatim>\<open>getDelay\<close> assigns to its local variable \<^verbatim>\<open>newDelay\<close> (the
  \<^verbatim>\<open>if\<close>/\<^verbatim>\<open>else\<close> before the \<^verbatim>\<open>return\<close>), with the state after it.
\<close>

definition newDelay :: "js_env \<Rightarrow> FetchResponse \<Rightarrow> nat \<Rightarrow> jsnum \<Rightarrow> io \<Rightarrow> jsnum \<times> io" where
  "newDelay E resp retryAttempts dly s =
     (case retryAfter resp of
        Some ra \<Rightarrow>
          if isNaN (Number_of E ra)
          then (Math_round
                  (js_div (js_sub (Date_getTime E ra) (Fin (Date_now E (clock_reads s))))
                     (Fin 1000)),
                s\<lparr>clock_reads := clock_reads s + 1\<rparr>)
          else (Number_of E ra, s)
      | None \<Rightarrow>
          (if 2 \<le> retryAttempts
           then js_add (js_add (getExponentialBackOffTime retryAttempts) dly)
                  (Fin (fst (getRandomness E s)))
           else js_add dly (Fin (fst (getRandomness E s))),
           snd (getRandomness E s)))"

text \<open>\<^verbatim>\<open>getDelay\<close>: the last line caps \<^verbatim>\<open>newDelay\<close>, drawing a random number of its own.\<close>

definition getDelay ::
  "js_env \<Rightarrow> RetryHandler \<Rightarrow> FetchResponse \<Rightarrow> nat \<Rightarrow> jsnum \<Rightarrow> io \<Rightarrow> jsnum \<times> io" where
  "getDelay E H resp retryAttempts dly s =
     (let nd = newDelay E resp retryAttempts dly s;
          r = getRandomness E (snd nd)
      in (Math_min (fst nd) (js_add (maxDelay (handler_options H)) (Fin (fst r))), snd r))"

text \<open>\<^verbatim>\<open>sleep\<close>: the wait itself is not modelled, its argument is recorded.\<close>

definition sleep :: "jsnum \<Rightarrow> io \<Rightarrow> io" where
  "sleep delaySeconds s = s\<lparr>sleeps := sleeps s @ [delaySeconds]\<rparr>"

definition getOptions :: "RetryHandler \<Rightarrow> MiddlewareContext \<Rightarrow> RetryHandlerOptions" where
  "getOptions H ctx =
     (case middlewareControl ctx of
        Some (Some opts) \<Rightarrow> opts
      | Some None \<Rightarrow> handler_options H
      | None \<Rightarrow> handler_options H)"

text \<open>The condition of the \<^verbatim>\<open>if\<close> in \<^verbatim>\<open>executeWithRetry\<close>, once the response is there.\<close>

definition retry_condition ::
  "RetryHandler \<Rightarrow> MiddlewareContext \<Rightarrow> FetchResponse \<Rightarrow> nat \<Rightarrow> RetryHandlerOptions \<Rightarrow> bool" where
  "retry_condition H ctx resp retryAttempts opts =
     (isRetry resp \<and> isBuffered H (request ctx) (options ctx)
      \<and> shouldRetry opts (delay opts) retryAttempts (request ctx) (options ctx) resp)"

text \<open>The context after \<^verbatim>\<open>setRequestHeader\<close> has stamped the attempt number.\<close>

definition stamp_attempt :: "RetryHandler \<Rightarrow> MiddlewareContext \<Rightarrow> nat \<Rightarrow> MiddlewareContext" where
  "stamp_attempt H ctx retryAttempts =
     (let ro = setRequestHeader H (request ctx) (options ctx) RETRY_ATTEMPT_HEADER
                 (toString retryAttempts)
      in ctx\<lparr>request := fst ro, options := snd ro\<rparr>)"

function executeWithRetry ::
  "js_env \<Rightarrow> RetryHandler \<Rightarrow> MiddlewareContext \<Rightarrow> nat \<Rightarrow> RetryHandlerOptions \<Rightarrow> io \<Rightarrow>
     (failure + MiddlewareContext) \<times> io" where
  "executeWithRetry E H ctx retryAttempts opts s =
     (case next_execute H (calls s) ctx of
        Inl e \<Rightarrow> (Inl e, s\<lparr>calls := calls s + 1\<rparr>)
      | Inr ctx1 \<Rightarrow>
          if retryAttempts < maxRetries opts
          then (case response ctx1 of
                  None \<Rightarrow> (Inl TypeError, s\<lparr>calls := calls s + 1\<rparr>)
                | Some resp \<Rightarrow>
                    if retry_condition H ctx1 resp retryAttempts opts
                    then executeWithRetry E H
                           (stamp_attempt H ctx1 (retryAttempts + 1))
                           (retryAttempts + 1) opts
                           (sleep (fst (getDelay E H resp (retryAttempts + 1) (delay opts)
                                          (s\<lparr>calls := calls s + 1\<rparr>)))
                              (snd (getDelay E H resp (retryAttempts + 1) (delay opts)
                                      (s\<lparr>calls := calls s + 1\<rparr>))))
                    else (Inr ctx1, s\<lparr>calls := calls s + 1\<rparr>))
          else (Inr ctx1, s\<lparr>calls := calls s + 1\<rparr>))"
  by pat_completeness auto
termination
  by (relation "measure (\<lambda>(E, H, ctx, retryAttempts, opts, s). maxRetries opts - retryAttempts)")
     auto

declare executeWithRetry.simps [simp del]

definition execute :: "js_env \<Rightarrow> RetryHandler \<Rightarrow> MiddlewareContext \<Rightarrow> io \<Rightarrow>
    (failure + MiddlewareContext) \<times> io" where
  "execute E H ctx s = executeWithRetry E H ctx 0 (getOptions H ctx) s"

section \<open>The specification's payload check and single-draw delay\<close>

text \<open>
  The payload check as the specification words it, for comparison with \<open>isBuffered\<close>:
  for the methods PUT, PATCH and POST the payload is replayable unless the content
  type of the request is \<^verbatim>\<open>application/octet-stream\<close>; for every other method it is
  replayable.
\<close>

definition isPayloadReplayable ::
  "RetryHandler \<Rightarrow> string \<Rightarrow> FetchRequestInfo \<Rightarrow> FetchRequestInit option \<Rightarrow> bool" where
  "isPayloadReplayable H m req opts =
     (if m = HttpMethod_PUT \<or> m = HttpMethod_PATCH \<or> m = HttpMethod_POST
      then getRequestHeader H req opts ''Content-Type'' \<noteq> Some ''application/octet-stream''
      else True)"

text \<open>
  The delay as the specification words it, for comparison with \<open>getDelay\<close>: one
  jitter value is drawn per call, and that value is used both in the raw backoff
  delay and in the cap.
\<close>

definition getDelay_one_draw ::
  "js_env \<Rightarrow> RetryHandler \<Rightarrow> FetchResponse \<Rightarrow> nat \<Rightarrow> jsnum \<Rightarrow> io \<Rightarrow> jsnum \<times> io" where
  "getDelay_one_draw E H resp retryAttempts dly s =
     (let r = getRandomness E s;
          jitter = Fin (fst r);
          computed =
            (case retryAfter resp of
               Some ra \<Rightarrow>
                 if isNaN (Number_of E ra)
                 then Math_round
                        (js_div (js_sub (Date_getTime E ra) (Fin (Date_now E (clock_reads s))))
                           (Fin 1000))
                 else Number_of E ra
             | None \<Rightarrow>
                 if 2 \<le> retryAttempts
                 then js_add (js_add (getExponentialBackOffTime retryAttempts) dly) jitter
                 else js_add dly jitter)
      in (Math_min computed (js_add (maxDelay (handler_options H)) jitter), snd r))"

text \<open>A number of seconds that is not negative (not-a-number is not).\<close>

fun nonnegative :: "jsnum \<Rightarrow> bool" where
  "nonnegative NaN = False"
| "nonnegative PInf = True"
| "nonnegative NInf = False"
| "nonnegative (Fin x) = (0 \<le> x)"

section \<open>Example inputs\<close>

definition io0 :: io where
  "io0 = \<lparr>calls = 0, draws = 0, clock_reads = 0, sleeps = []\<rparr>"

text \<open>
  Modelled from the spec: the default values of \<^verbatim>\<open>RetryHandlerOptions\<close>, whose
  declaration is not among the sources: three retries, a base delay of 3 seconds, a
  maximum delay of 180 seconds and a predicate that always approves.
\<close>

definition default_options :: RetryHandlerOptions where
  "default_options =
     \<lparr>delay = Fin 3, maxRetries = 3, maxDelay = Fin 180,
      shouldRetry = (\<lambda>d n req opts resp. True)\<rparr>"

text \<open>
  Modelled from the spec: \<^verbatim>\<open>getRequestHeader\<close> of \<^verbatim>\<open>middlewareUtil\<close>, which is not
  among the sources: the value of the named header of the request options.
\<close>

definition lookup_header ::
  "FetchRequestInfo \<Rightarrow> FetchRequestInit option \<Rightarrow> string \<Rightarrow> string option" where
  "lookup_header req opts key =
     (case opts of None \<Rightarrow> None | Some init \<Rightarrow> map_of (init_headers init) key)"

text \<open>
  Modelled from the spec: \<^verbatim>\<open>setRequestHeader\<close> of \<^verbatim>\<open>middlewareUtil\<close>, which is not
  among the sources: the named header of the request options is set to the value,
  replacing an earlier one.
\<close>

definition stamp_header ::
  "FetchRequestInfo \<Rightarrow> FetchRequestInit option \<Rightarrow> string \<Rightarrow> string \<Rightarrow>
     FetchRequestInfo \<times> FetchRequestInit option" where
  "stamp_header req opts key v =
     (req,
      case opts of
        None \<Rightarrow> None
      | Some init \<Rightarrow>
          Some (init\<lparr>init_headers := (key, v) # filter (\<lambda>kv. fst kv \<noteq> key) (init_headers init)\<rparr>))"

text \<open>A next middleware that answers with a status and response headers.\<close>

definition answer ::
  "nat \<Rightarrow> (string \<Rightarrow> string option) option \<Rightarrow> MiddlewareContext \<Rightarrow> failure + MiddlewareContext" where
  "answer st hs ctx = Inr (ctx\<lparr>response := Some \<lparr>status = st, headers = hs\<rparr>\<rparr>)"

definition handler_of ::
  "RetryHandlerOptions \<Rightarrow> (nat \<Rightarrow> MiddlewareContext \<Rightarrow> failure + MiddlewareContext) \<Rightarrow> RetryHandler" where
  "handler_of opts nx =
     \<lparr>handler_options = opts, next_execute = nx,
      getRequestHeader = lookup_header, setRequestHeader = stamp_header\<rparr>"

text \<open>
  The values of the built-in functions at the strings of the examples; the clock
  stands at 21 October 2015, 07:28:00 GMT, and the random numbers alternate between
  0.9 and 0.1.
\<close>

definition ex_env :: js_env where
  "ex_env =
     \<lparr>Number_of = (\<lambda>s. if s = ''2'' then Fin 2 else if s = ''500'' then Fin 500
                      else if s = ''-5'' then Fin (- 5) else NaN),
      Date_getTime = (\<lambda>s. if s = ''Wed, 21 Oct 2015 07:27:50 GMT'' then Fin 1445412470000
                         else if s = ''Wed, 21 Oct 2015 07:28:07 GMT'' then Fin 1445412487000
                         else NaN),
      Math_random = (\<lambda>k. if even k then 9 / 10 else 1 / 10),
      Date_now = (\<lambda>k. 1445412480000)\<rparr>"

definition get_ctx :: MiddlewareContext where
  "get_ctx =
     \<lparr>request = RequestUrl ''https://example.org/items'',
      options = Some \<lparr>init_method = Some ''GET'', init_headers = []\<rparr>,
      response = None, middlewareControl = None\<rparr>"

definition post_stream_init :: FetchRequestInit where
  "post_stream_init =
     \<lparr>init_method = Some ''POST'',
      init_headers = [(''Content-Type'', ''application/octet-stream'')]\<rparr>"

definition post_stream_ctx :: MiddlewareContext where
  "post_stream_ctx =
     \<lparr>request = RequestUrl ''https://example.org/upload'',
      options = Some post_stream_init,
      response = None, middlewareControl = None\<rparr>"

text \<open>Response headers holding a \<^verbatim>\<open>Retry-After\<close> value only.\<close>

definition retry_after_headers :: "string \<Rightarrow> (string \<Rightarrow> string option) option" where
  "retry_after_headers v = Some (\<lambda>k. if k = ''Retry-After'' then Some v else None)"

text \<open>
  A handler with the default options whose next middleware always answers 503, and one
  whose next middleware answers 503 with an unparseable \<^verbatim>\<open>Retry-After\<close> value first and
  200 afterwards.
\<close>

definition always_503 :: RetryHandler where
  "always_503 = handler_of default_options (\<lambda>k. answer 503 None)"

definition soon_then_ok :: RetryHandler where
  "soon_then_ok =
     handler_of default_options
       (\<lambda>k. if k = 0 then answer 503 (retry_after_headers ''soon'') else answer 200 None)"

section \<open>Auxiliary facts\<close>

lemma isRetry_iff:
  "isRetry resp \<longleftrightarrow> status resp = 429 \<or> status resp = 503 \<or> status resp = 504"
  by (auto simp: isRetry_def RETRY_STATUS_CODES_def)

lemma getRandomness_calls: "calls (snd (getRandomness E s)) = calls s"
  and getRandomness_sleeps: "sleeps (snd (getRandomness E s)) = sleeps s"
  by (simp_all add: getRandomness_def)

lemma newDelay_calls: "calls (snd (newDelay E resp n d s)) = calls s"
  and newDelay_sleeps: "sleeps (snd (newDelay E resp n d s)) = sleeps s"
  by (simp_all add: newDelay_def getRandomness_def split: option.splits)

lemma getDelay_calls: "calls (snd (getDelay E H resp n d s)) = calls s"
  and getDelay_sleeps: "sleeps (snd (getDelay E H resp n d s)) = sleeps s"
  by (simp_all add: getDelay_def Let_def getRandomness_calls getRandomness_sleeps
        newDelay_calls newDelay_sleeps)

text \<open>One unfolding of the loop, by the outcome of the invocation.\<close>

lemma executeWithRetry_failure:
  "next_execute H (calls s) ctx = Inl e \<Longrightarrow>
   executeWithRetry E H ctx n opts s = (Inl e, s\<lparr>calls := calls s + 1\<rparr>)"
  by (subst executeWithRetry.simps) simp

lemma executeWithRetry_no_response:
  "next_execute H (calls s) ctx = Inr ctx1 \<Longrightarrow> response ctx1 = None \<Longrightarrow>
   executeWithRetry E H ctx n opts s =
     (if n < maxRetries opts then Inl TypeError else Inr ctx1, s\<lparr>calls := calls s + 1\<rparr>)"
  by (subst executeWithRetry.simps) simp

lemma executeWithRetry_stop:
  "next_execute H (calls s) ctx = Inr ctx1 \<Longrightarrow> response ctx1 = Some resp \<Longrightarrow>
   \<not> (n < maxRetries opts \<and> retry_condition H ctx1 resp n opts) \<Longrightarrow>
   executeWithRetry E H ctx n opts s = (Inr ctx1, s\<lparr>calls := calls s + 1\<rparr>)"
  by (subst executeWithRetry.simps) auto

lemma executeWithRetry_retry:
  "next_execute H (calls s) ctx = Inr ctx1 \<Longrightarrow> response ctx1 = Some resp \<Longrightarrow>
   n < maxRetries opts \<Longrightarrow> retry_condition H ctx1 resp n opts \<Longrightarrow>
   executeWithRetry E H ctx n opts s =
     executeWithRetry E H (stamp_attempt H ctx1 (n + 1)) (n + 1) opts
       (sleep (fst (getDelay E H resp (n + 1) (delay opts) (s\<lparr>calls := calls s + 1\<rparr>)))
          (snd (getDelay E H resp (n + 1) (delay opts) (s\<lparr>calls := calls s + 1\<rparr>))))"
  by (subst executeWithRetry.simps) simp

text \<open>Every invocation but the first follows exactly one sleep.\<close>

lemma executeWithRetry_count:
  "calls (snd (executeWithRetry E H ctx n opts s)) + length (sleeps s)
     = calls s + 1 + length (sleeps (snd (executeWithRetry E H ctx n opts s)))"
proof (induction E H ctx n opts s rule: executeWithRetry.induct)
  case (1 E H ctx n opts s)
  show ?case
    apply (subst (1 2) executeWithRetry.simps)
    using "1.IH"
    by (auto split: sum.splits option.splits simp: sleep_def getDelay_calls getDelay_sleeps)
qed

lemma executeWithRetry_bound:
  "length (sleeps (snd (executeWithRetry E H ctx n opts s))) + n
     \<le> length (sleeps s) + max n (maxRetries opts)"
proof (induction E H ctx n opts s rule: executeWithRetry.induct)
  case (1 E H ctx n opts s)
  show ?case
    apply (subst executeWithRetry.simps)
    using "1.IH"
    by (auto split: sum.splits option.splits simp: sleep_def getDelay_calls getDelay_sleeps)
qed

text \<open>When every answer is approved for a retry, the budget is used up.\<close>

lemma executeWithRetry_all_retry:
  "\<forall>k c. \<exists>c1 resp. next_execute H k c = Inr c1 \<and> response c1 = Some resp
            \<and> (\<forall>m. retry_condition H c1 resp m opts) \<Longrightarrow>
   n \<le> maxRetries opts \<Longrightarrow>
     calls (snd (executeWithRetry E H ctx n opts s)) = calls s + 1 + (maxRetries opts - n)"
proof (induction E H ctx n opts s rule: executeWithRetry.induct)
  case (1 E H ctx n opts s)
  from "1.prems"(1) obtain c1 resp where
    c1: "next_execute H (calls s) ctx = Inr c1" "response c1 = Some resp"
    "\<forall>m. retry_condition H c1 resp m opts" by blast
  show ?case
  proof (cases "n < maxRetries opts")
    case True
    have "calls (snd (executeWithRetry E H (stamp_attempt H c1 (n + 1)) (n + 1) opts
       (sleep (fst (getDelay E H resp (n + 1) (delay opts) (s\<lparr>calls := calls s + 1\<rparr>)))
          (snd (getDelay E H resp (n + 1) (delay opts) (s\<lparr>calls := calls s + 1\<rparr>))))))
       = calls s + 1 + 1 + (maxRetries opts - (n + 1))"
      using "1.IH"[OF c1(1) True c1(2) _ "1.prems"(1)] c1(3) True
      by (simp add: sleep_def getDelay_calls)
    then show ?thesis
      using executeWithRetry_retry[OF c1(1,2) True, of E] c1(3) True by simp
  next
    case False
    then show ?thesis
      using executeWithRetry_stop[OF c1(1,2), of n opts E] "1.prems"(2) by simp
  qed
qed

text \<open>Every run of the loop invokes the next middleware at least once.\<close>

lemma executeWithRetry_calls_ge:
  "calls s + 1 \<le> calls (snd (executeWithRetry E H ctx n opts s))"
proof (induction E H ctx n opts s rule: executeWithRetry.induct)
  case (1 E H ctx n opts s)
  show ?case
  proof (cases "next_execute H (calls s) ctx")
    case (Inl e)
    then show ?thesis by (simp add: executeWithRetry_failure)
  next
    case (Inr ctx1)
    show ?thesis
    proof (cases "response ctx1")
      case None
      with Inr show ?thesis by (simp add: executeWithRetry_no_response)
    next
      case (Some resp)
      show ?thesis
      proof (cases "n < maxRetries opts \<and> retry_condition H ctx1 resp n opts")
        case True
        then show ?thesis
          using "1.IH"[OF Inr _ Some] executeWithRetry_retry[OF Inr Some, of n opts E]
          by (simp add: sleep_def getDelay_calls)
      next
        case False
        with executeWithRetry_stop[OF Inr Some, of n opts E] show ?thesis by simp
      qed
    qed
  qed
qed

lemma getOptions_handler [simp]:
  "middlewareControl ctx = None \<Longrightarrow> getOptions H ctx = handler_options H"
  by (simp add: getOptions_def)

text \<open>The example middleware that always answers 503 is always approved for a retry.\<close>

lemma answer_503_all_retry:
  "\<forall>k c. \<exists>c1 resp. next_execute (handler_of default_options (\<lambda>k. answer 503 None)) k c = Inr c1
      \<and> response c1 = Some resp
      \<and> (\<forall>m. retry_condition (handler_of default_options (\<lambda>k. answer 503 None)) c1 resp m default_options)"
  by (simp add: handler_of_def answer_def retry_condition_def isRetry_iff default_options_def
      isBuffered_def jsval_of_options_def split: option.splits)

section \<open>The executor\<close>

text \<open>
  Claim C2. For every exchange, the number of invocations of the next middleware is
  one plus the number of approved retries (each approved retry is followed by exactly
  one sleep), and the approved retries never exceed \<open>maxRetries\<close>, so the number is
  \<open>1 + min approved maxRetries\<close> and at most \<open>maxRetries + 1\<close>. When the first response
  has a status outside 429, 503 and 504, exactly one invocation occurs whatever
  \<open>maxRetries\<close> is. When every response has one of these statuses and the other
  approval conditions hold every time, exactly \<open>maxRetries + 1\<close> invocations occur.
\<close>

theorem invocation_count:
  "calls (snd (execute E H ctx s)) - calls s
      = 1 + min (length (sleeps (snd (execute E H ctx s))) - length (sleeps s))
                (maxRetries (getOptions H ctx))
   \<and> calls (snd (execute E H ctx s)) - calls s \<le> maxRetries (getOptions H ctx) + 1
   \<and> ((\<exists>ctx1 resp. next_execute H (calls s) ctx = Inr ctx1 \<and> response ctx1 = Some resp
          \<and> status resp \<notin> {429, 503, 504})
        \<longrightarrow> calls (snd (execute E H ctx s)) - calls s = 1)
   \<and> ((\<forall>k c. \<exists>c1 resp. next_execute H k c = Inr c1 \<and> response c1 = Some resp
          \<and> status resp \<in> {429, 503, 504}
          \<and> isBuffered H (request c1) (options c1)
          \<and> (\<forall>m. shouldRetry (getOptions H ctx) (delay (getOptions H ctx)) m
                    (request c1) (options c1) resp))
        \<longrightarrow> calls (snd (execute E H ctx s)) - calls s = maxRetries (getOptions H ctx) + 1)"
proof -
  define opts where "opts = getOptions H ctx"
  define s' where "s' = snd (execute E H ctx s)"
  have s': "s' = snd (executeWithRetry E H ctx 0 opts s)"
    by (simp add: s'_def opts_def execute_def)
  have count: "calls s' + length (sleeps s) = calls s + 1 + length (sleeps s')"
    unfolding s' by (rule executeWithRetry_count)
  have bound: "length (sleeps s') \<le> length (sleeps s) + maxRetries opts"
    using executeWithRetry_bound[of E H ctx 0 opts s] by (simp add: s')
  have ge: "calls s + 1 \<le> calls s'"
    unfolding s' by (rule executeWithRetry_calls_ge)
  have A: "calls s' - calls s = 1 + min (length (sleeps s') - length (sleeps s)) (maxRetries opts)"
    using count bound ge by simp
  have B: "calls s' - calls s \<le> maxRetries opts + 1"
    using count bound ge by simp
  have C: "calls s' - calls s = 1"
    if "\<exists>ctx1 resp. next_execute H (calls s) ctx = Inr ctx1 \<and> response ctx1 = Some resp
          \<and> status resp \<notin> {429, 503, 504}"
  proof -
    from that obtain ctx1 resp where h: "next_execute H (calls s) ctx = Inr ctx1"
      "response ctx1 = Some resp" "status resp \<notin> {429, 503, 504}" by blast
    from h(3) have "\<not> (0 < maxRetries opts \<and> retry_condition H ctx1 resp 0 opts)"
      by (simp add: retry_condition_def isRetry_iff)
    from executeWithRetry_stop[OF h(1,2) this] show ?thesis by (simp add: s')
  qed
  have D: "calls s' - calls s = maxRetries opts + 1"
    if "\<forall>k c. \<exists>c1 resp. next_execute H k c = Inr c1 \<and> response c1 = Some resp
          \<and> status resp \<in> {429, 503, 504}
          \<and> isBuffered H (request c1) (options c1)
          \<and> (\<forall>m. shouldRetry opts (delay opts) m (request c1) (options c1) resp)"
  proof -
    from that have "\<forall>k c. \<exists>c1 resp. next_execute H k c = Inr c1 \<and> response c1 = Some resp
            \<and> (\<forall>m. retry_condition H c1 resp m opts)"
      unfolding retry_condition_def isRetry_iff by (metis insert_iff empty_iff)
    from executeWithRetry_all_retry[OF this, of 0 E ctx s] show ?thesis by (simp add: s')
  qed
  from A B C D show ?thesis unfolding opts_def s'_def by blast
qed

theorem invocation_count_witness:
  "calls (snd (execute ex_env (handler_of default_options (\<lambda>k. answer 200 None)) get_ctx io0))
      - calls io0 = 1
   \<and> calls (snd (execute ex_env (handler_of default_options (\<lambda>k. answer 503 None)) get_ctx io0))
      - calls io0 = 3 + 1"
proof -
  have 1: "\<exists>ctx1 resp. next_execute (handler_of default_options (\<lambda>k. answer 200 None)) (calls io0) get_ctx = Inr ctx1
      \<and> response ctx1 = Some resp \<and> status resp \<notin> {429, 503, 504}"
    by (simp add: handler_of_def answer_def)
  have 2: "\<forall>k c. \<exists>c1 resp. next_execute (handler_of default_options (\<lambda>k. answer 503 None)) k c = Inr c1
          \<and> response c1 = Some resp
          \<and> status resp \<in> {429, 503, 504}
          \<and> isBuffered (handler_of default_options (\<lambda>k. answer 503 None)) (request c1) (options c1)
          \<and> (\<forall>m. shouldRetry (getOptions (handler_of default_options (\<lambda>k. answer 503 None)) get_ctx)
                 (delay (getOptions (handler_of default_options (\<lambda>k. answer 503 None)) get_ctx)) m
                    (request c1) (options c1) resp)"
    by (simp add: handler_of_def answer_def default_options_def get_ctx_def
        isBuffered_def jsval_of_options_def split: option.splits)
  have 3: "maxRetries (getOptions (handler_of default_options (\<lambda>k. answer 503 None)) get_ctx) = 3"
    by (simp add: handler_of_def default_options_def get_ctx_def)
  show ?thesis
    using invocation_count[of ex_env "handler_of default_options (\<lambda>k. answer 200 None)" get_ctx io0]
      invocation_count[of ex_env "handler_of default_options (\<lambda>k. answer 503 None)" get_ctx io0]
      1 2 3
    by simp
qed

text \<open>
  Claim C9. When the next middleware throws, the failure is returned to the caller
  as it was thrown, right after that invocation: no sleep, no header stamp and no
  further invocation follow. This holds at every attempt, the first included. A
  second invocation happens only after a received response whose status is
  retryable.
\<close>

theorem transport_failure_propagates:
  "(next_execute H (calls s) ctx = Inl e \<longrightarrow>
      executeWithRetry E H ctx retryAttempts opts s = (Inl e, s\<lparr>calls := calls s + 1\<rparr>)
      \<and> execute E H ctx s = (Inl e, s\<lparr>calls := calls s + 1\<rparr>))
   \<and> (calls s + 1 < calls (snd (executeWithRetry E H ctx retryAttempts opts s)) \<longrightarrow>
        (\<exists>ctx1 resp. next_execute H (calls s) ctx = Inr ctx1 \<and> response ctx1 = Some resp
           \<and> isRetry resp))"
proof (intro conjI impI)
  assume "next_execute H (calls s) ctx = Inl e"
  then show "executeWithRetry E H ctx retryAttempts opts s = (Inl e, s\<lparr>calls := calls s + 1\<rparr>)"
    and "execute E H ctx s = (Inl e, s\<lparr>calls := calls s + 1\<rparr>)"
    by (simp_all add: execute_def executeWithRetry_failure)
next
  assume more: "calls s + 1 < calls (snd (executeWithRetry E H ctx retryAttempts opts s))"
  show "\<exists>ctx1 resp. next_execute H (calls s) ctx = Inr ctx1 \<and> response ctx1 = Some resp
           \<and> isRetry resp"
  proof (cases "next_execute H (calls s) ctx")
    case (Inl e)
    with more show ?thesis by (simp add: executeWithRetry_failure)
  next
    case (Inr ctx1)
    show ?thesis
    proof (cases "response ctx1")
      case None
      with Inr more show ?thesis by (simp add: executeWithRetry_no_response)
    next
      case (Some resp)
      have "isRetry resp"
      proof (rule ccontr)
        assume "\<not> isRetry resp"
        then have "\<not> (retryAttempts < maxRetries opts \<and> retry_condition H ctx1 resp retryAttempts opts)"
          by (simp add: retry_condition_def)
        from executeWithRetry_stop[OF Inr Some this] more show False by simp
      qed
      with Inr Some show ?thesis by simp
    qed
  qed
qed

theorem transport_failure_propagates_witness:
  "execute ex_env (handler_of default_options (\<lambda>k c. Inl (Thrown ''ECONNRESET''))) get_ctx io0
     = (Inl (Thrown ''ECONNRESET''), io0\<lparr>calls := 1\<rparr>)
   \<and> (\<exists>ctx1 resp. next_execute (handler_of default_options (\<lambda>k. answer 503 None)) (calls io0) get_ctx = Inr ctx1
          \<and> response ctx1 = Some resp \<and> isRetry resp)"
proof -
  have 1: "next_execute (handler_of default_options (\<lambda>k c. Inl (Thrown ''ECONNRESET''))) (calls io0) get_ctx
      = Inl (Thrown ''ECONNRESET'')"
    by (simp add: handler_of_def)
  have "calls (snd (executeWithRetry ex_env (handler_of default_options (\<lambda>k. answer 503 None)) get_ctx 0
           default_options io0)) = calls io0 + 1 + (maxRetries default_options - 0)"
    by (rule executeWithRetry_all_retry[OF answer_503_all_retry]) simp
  then have 2: "calls io0 + 1 < calls (snd (executeWithRetry ex_env
      (handler_of default_options (\<lambda>k. answer 503 None)) get_ctx 0 default_options io0))"
    by (simp add: default_options_def)
  show ?thesis
    using transport_failure_propagates[of "handler_of default_options (\<lambda>k c. Inl (Thrown ''ECONNRESET''))"
        io0 get_ctx "Thrown ''ECONNRESET''" ex_env 0 default_options]
      transport_failure_propagates[of "handler_of default_options (\<lambda>k. answer 503 None)"
        io0 get_ctx TypeError ex_env 0 default_options] 1 2
    by (simp add: io0_def)
qed

text \<open>
  The decision of the loop. After an invocation that returned a response, a further
  invocation takes place if and only if the condition of the \<^verbatim>\<open>if\<close> holds: the attempt
  number is below \<open>maxRetries\<close>, the status is retryable, \<open>isBuffered\<close> returns true and
  the \<open>shouldRetry\<close> predicate returns true. When it holds, the loop goes on with the
  attempt number incremented, after the header stamp and the sleep; otherwise it ends
  with the context as the invocation left it. With a predicate that always returns
  false, exactly one invocation occurs.
\<close>

lemma executeWithRetry_approval:
  "(next_execute H (calls s) ctx = Inr ctx1 \<and> response ctx1 = Some resp \<longrightarrow>
      ((calls s + 1 < calls (snd (executeWithRetry E H ctx retryAttempts opts s)))
         = (retryAttempts < maxRetries opts \<and> isRetry resp
            \<and> isBuffered H (request ctx1) (options ctx1)
            \<and> shouldRetry opts (delay opts) retryAttempts (request ctx1) (options ctx1) resp))
      \<and> (retryAttempts < maxRetries opts \<and> isRetry resp
             \<and> isBuffered H (request ctx1) (options ctx1)
             \<and> shouldRetry opts (delay opts) retryAttempts (request ctx1) (options ctx1) resp
          \<longrightarrow> executeWithRetry E H ctx retryAttempts opts s
               = executeWithRetry E H (stamp_attempt H ctx1 (retryAttempts + 1))
                   (retryAttempts + 1) opts
                   (sleep (fst (getDelay E H resp (retryAttempts + 1) (delay opts)
                                  (s\<lparr>calls := calls s + 1\<rparr>)))
                      (snd (getDelay E H resp (retryAttempts + 1) (delay opts)
                              (s\<lparr>calls := calls s + 1\<rparr>)))))
      \<and> (\<not> (retryAttempts < maxRetries opts \<and> isRetry resp
             \<and> isBuffered H (request ctx1) (options ctx1)
             \<and> shouldRetry opts (delay opts) retryAttempts (request ctx1) (options ctx1) resp)
          \<longrightarrow> executeWithRetry E H ctx retryAttempts opts s
               = (Inr ctx1, s\<lparr>calls := calls s + 1\<rparr>)))
   \<and> ((\<forall>d m rq ro rs. \<not> shouldRetry (getOptions H ctx) d m rq ro rs) \<longrightarrow>
        calls (snd (execute E H ctx s)) = calls s + 1)"
proof (rule conjI; rule impI)
  assume "next_execute H (calls s) ctx = Inr ctx1 \<and> response ctx1 = Some resp"
  then have nx: "next_execute H (calls s) ctx = Inr ctx1" and rs: "response ctx1 = Some resp"
    by simp_all
  let ?approved = "retryAttempts < maxRetries opts \<and> isRetry resp
            \<and> isBuffered H (request ctx1) (options ctx1)
            \<and> shouldRetry opts (delay opts) retryAttempts (request ctx1) (options ctx1) resp"
  let ?retry = "executeWithRetry E H (stamp_attempt H ctx1 (retryAttempts + 1))
                   (retryAttempts + 1) opts
                   (sleep (fst (getDelay E H resp (retryAttempts + 1) (delay opts)
                                  (s\<lparr>calls := calls s + 1\<rparr>)))
                      (snd (getDelay E H resp (retryAttempts + 1) (delay opts)
                              (s\<lparr>calls := calls s + 1\<rparr>))))"
  have yes: "executeWithRetry E H ctx retryAttempts opts s = ?retry" if ?approved
    using executeWithRetry_retry[OF nx rs, of retryAttempts opts E] that
    by (simp add: retry_condition_def)
  have no: "executeWithRetry E H ctx retryAttempts opts s = (Inr ctx1, s\<lparr>calls := calls s + 1\<rparr>)"
    if "\<not> ?approved"
    using executeWithRetry_stop[OF nx rs, of retryAttempts opts E] that
    by (auto simp add: retry_condition_def)
  have more: "calls s + 1 < calls (snd ?retry)"
    using executeWithRetry_calls_ge[of "sleep (fst (getDelay E H resp (retryAttempts + 1) (delay opts)
                                  (s\<lparr>calls := calls s + 1\<rparr>)))
                      (snd (getDelay E H resp (retryAttempts + 1) (delay opts)
                              (s\<lparr>calls := calls s + 1\<rparr>)))" E H
                    "stamp_attempt H ctx1 (retryAttempts + 1)" "retryAttempts + 1" opts]
    by (simp add: sleep_def getDelay_calls)
  have iff: "(calls s + 1 < calls (snd (executeWithRetry E H ctx retryAttempts opts s))) = ?approved"
  proof (cases ?approved)
    case True
    with yes more show ?thesis by simp
  next
    case False
    with no show ?thesis by simp
  qed
  from iff yes no
  show "((calls s + 1 < calls (snd (executeWithRetry E H ctx retryAttempts opts s))) = ?approved)
      \<and> (?approved \<longrightarrow> executeWithRetry E H ctx retryAttempts opts s = ?retry)
      \<and> (\<not> ?approved \<longrightarrow> executeWithRetry E H ctx retryAttempts opts s
               = (Inr ctx1, s\<lparr>calls := calls s + 1\<rparr>))"
    by blast
next
  assume veto: "\<forall>d m rq ro rs. \<not> shouldRetry (getOptions H ctx) d m rq ro rs"
  show "calls (snd (execute E H ctx s)) = calls s + 1"
  proof (cases "next_execute H (calls s) ctx")
    case (Inl e)
    then show ?thesis by (simp add: execute_def executeWithRetry_failure)
  next
    case (Inr ctx1)
    show ?thesis
    proof (cases "response ctx1")
      case None
      with Inr show ?thesis by (simp add: execute_def executeWithRetry_no_response)
    next
      case (Some resp)
      from veto have "\<not> (0 < maxRetries (getOptions H ctx)
          \<and> retry_condition H ctx1 resp 0 (getOptions H ctx))"
        by (simp add: retry_condition_def)
      from executeWithRetry_stop[OF Inr Some this] show ?thesis by (simp add: execute_def)
    qed
  qed
qed

section \<open>The delay\<close>

text \<open>The jitter lies between 0 and 1 and is a multiple of one thousandth.\<close>

lemma toFixed3_nonneg: "0 \<le> r \<Longrightarrow> 0 \<le> toFixed3 r"
  by (simp add: toFixed3_def)

lemma toFixed3_le_one: "r < 1 \<Longrightarrow> toFixed3 r \<le> 1"
proof -
  assume "r < 1"
  then have "r * 1000 + 1 / 2 < 1001" by simp
  then have "\<lfloor>r * 1000 + 1 / 2\<rfloor> < 1001" by (simp add: floor_less_iff)
  then have "\<lfloor>r * 1000 + 1 / 2\<rfloor> \<le> 1000" by simp
  then have "(of_int \<lfloor>r * 1000 + 1 / 2\<rfloor> :: real) \<le> 1000" by linarith
  then show ?thesis by (simp add: toFixed3_def)
qed

lemma toFixed3_thousandths: "toFixed3 r * 1000 = of_int \<lfloor>r * 1000 + 1 / 2\<rfloor>"
  by (simp add: toFixed3_def)

lemma newDelay_no_hint:
  "retryAfter resp = None \<Longrightarrow>
   newDelay E resp n dly s =
     (js_add (if 2 \<le> n then js_add (getExponentialBackOffTime n) dly else dly)
        (Fin (toFixed3 (Math_random E (draws s)))),
      s\<lparr>draws := draws s + 1\<rparr>)"
  by (simp add: newDelay_def getRandomness_def)

lemma newDelay_hint:
  "retryAfter resp = Some ra \<Longrightarrow>
   newDelay E resp n dly s =
     (if isNaN (Number_of E ra)
      then (Math_round (js_div (js_sub (Date_getTime E ra) (Fin (Date_now E (clock_reads s))))
                          (Fin 1000)),
            s\<lparr>clock_reads := clock_reads s + 1\<rparr>)
      else (Number_of E ra, s))"
  by (simp add: newDelay_def)

lemma getDelay_unfold:
  "getDelay E H resp n dly s =
     (Math_min (fst (newDelay E resp n dly s))
        (js_add (maxDelay (handler_options H))
           (Fin (toFixed3 (Math_random E (draws (snd (newDelay E resp n dly s))))))),
      snd (newDelay E resp n dly s)\<lparr>draws := draws (snd (newDelay E resp n dly s)) + 1\<rparr>)"
  by (simp add: getDelay_def Let_def getRandomness_def)

lemma Math_min_nonnegative:
  "0 \<le> c \<Longrightarrow> nonnegative (Math_min x (Fin c)) = nonnegative x"
  by (cases x) simp_all

text \<open>The values of the examples.\<close>

lemma ex_retry_after [simp]:
  "retryAfter \<lparr>status = st, headers = retry_after_headers v\<rparr> = Some v"
  by (simp add: retryAfter_def retry_after_headers_def RETRY_AFTER_HEADER_def)

lemma ex_no_headers [simp]: "retryAfter \<lparr>status = st, headers = None\<rparr> = None"
  by (simp add: retryAfter_def)

lemma ex_env_simps [simp]:
  "Number_of ex_env ''2'' = Fin 2"
  "Number_of ex_env ''500'' = Fin 500"
  "Number_of ex_env ''-5'' = Fin (- 5)"
  "Number_of ex_env ''soon'' = NaN"
  "Number_of ex_env ''Wed, 21 Oct 2015 07:27:50 GMT'' = NaN"
  "Number_of ex_env ''Wed, 21 Oct 2015 07:28:07 GMT'' = NaN"
  "Date_getTime ex_env ''soon'' = NaN"
  "Date_getTime ex_env ''Wed, 21 Oct 2015 07:27:50 GMT'' = Fin 1445412470000"
  "Date_getTime ex_env ''Wed, 21 Oct 2015 07:28:07 GMT'' = Fin 1445412487000"
  "Date_now ex_env k = 1445412480000"
  "Math_random ex_env k = (if even k then 9 / 10 else 1 / 10)"
  by (simp_all add: ex_env_def)

lemma ex_handler_simps [simp]:
  "handler_options (handler_of opts nx) = opts"
  "next_execute (handler_of opts nx) = nx"
  "getRequestHeader (handler_of opts nx) = lookup_header"
  "setRequestHeader (handler_of opts nx) = stamp_header"
  by (simp_all add: handler_of_def)

lemma default_options_simps [simp]:
  "delay default_options = Fin 3"
  "maxRetries default_options = 3"
  "maxDelay default_options = Fin 180"
  "shouldRetry default_options = (\<lambda>d n req opts resp. True)"
  by (simp_all add: default_options_def)

lemma io0_simps [simp]:
  "calls io0 = 0" "draws io0 = 0" "clock_reads io0 = 0" "sleeps io0 = []"
  by (simp_all add: io0_def)

text \<open>
  Claim C3. With a \<^verbatim>\<open>Retry-After\<close> header that parses as a number, the computed delay
  (the value of \<^verbatim>\<open>newDelay\<close>) is that number, and no jitter is drawn for it; otherwise the
  header is parsed as a date and the computed delay is the difference between its
  instant and now, in seconds, rounded. In both cases the computed delay depends neither
  on the attempt number nor on the base delay: the backoff formula is not used. The
  computed delay is also the returned one as soon as it does not exceed the maximum
  delay.
\<close>

theorem hinted_delay:
  "retryAfter resp = Some ra \<longrightarrow>
     (\<not> isNaN (Number_of E ra) \<longrightarrow> newDelay E resp n dly s = (Number_of E ra, s))
   \<and> (isNaN (Number_of E ra) \<and> Date_getTime E ra = Fin t \<longrightarrow>
        fst (newDelay E resp n dly s)
          = Fin (of_int \<lfloor>(t - Date_now E (clock_reads s)) / 1000 + 1 / 2\<rfloor>))
   \<and> newDelay E resp n dly s = newDelay E resp n' dly' s
   \<and> draws (snd (newDelay E resp n dly s)) = draws s
   \<and> (fst (newDelay E resp n dly s) = Fin x \<and> maxDelay (handler_options H) = Fin m
        \<and> x \<le> m \<and> 0 \<le> Math_random E (draws s) \<longrightarrow>
        fst (getDelay E H resp n dly s) = Fin x)"
proof (intro impI conjI)
  assume ra: "retryAfter resp = Some ra"
  show "newDelay E resp n dly s = (Number_of E ra, s)" if "\<not> isNaN (Number_of E ra)"
    using that by (simp add: newDelay_hint[OF ra])
  show "fst (newDelay E resp n dly s)
          = Fin (of_int \<lfloor>(t - Date_now E (clock_reads s)) / 1000 + 1 / 2\<rfloor>)"
    if "isNaN (Number_of E ra) \<and> Date_getTime E ra = Fin t"
    using that by (simp add: newDelay_hint[OF ra] js_sub_def)
  show "newDelay E resp n dly s = newDelay E resp n' dly' s"
    by (simp add: newDelay_hint[OF ra])
  show d: "draws (snd (newDelay E resp n dly s)) = draws s"
    by (simp add: newDelay_hint[OF ra])
  show "fst (getDelay E H resp n dly s) = Fin x"
    if "fst (newDelay E resp n dly s) = Fin x \<and> maxDelay (handler_options H) = Fin m
        \<and> x \<le> m \<and> 0 \<le> Math_random E (draws s)"
  proof -
    from that have "0 \<le> toFixed3 (Math_random E (draws s))" by (simp add: toFixed3_nonneg)
    with that show ?thesis by (simp add: getDelay_unfold d)
  qed
qed

theorem hinted_delay_witness:
  "newDelay ex_env \<lparr>status = 503, headers = retry_after_headers ''2''\<rparr> 1 (Fin 3) io0 = (Fin 2, io0)
   \<and> fst (getDelay ex_env (handler_of default_options (\<lambda>k. answer 503 (retry_after_headers ''2'')))
            \<lparr>status = 503, headers = retry_after_headers ''2''\<rparr> 1 (Fin 3) io0) = Fin 2
   \<and> fst (newDelay ex_env \<lparr>status = 503, headers = retry_after_headers ''Wed, 21 Oct 2015 07:28:07 GMT''\<rparr>
            1 (Fin 3) io0) = Fin 7"
proof -
  note T = hinted_delay[of "\<lparr>status = 503, headers = retry_after_headers ''2''\<rparr>" "''2''" ex_env 1 "Fin 3" io0
      0 5 "Fin 0" 2 "handler_of default_options (\<lambda>k. answer 503 (retry_after_headers ''2''))" 180]
  note U = hinted_delay[of "\<lparr>status = 503, headers = retry_after_headers ''Wed, 21 Oct 2015 07:28:07 GMT''\<rparr>"
      "''Wed, 21 Oct 2015 07:28:07 GMT''" ex_env 1 "Fin 3" io0
      1445412487000 5 "Fin 0" 7 "handler_of default_options (\<lambda>k. answer 503 None)" 180]
  have a: "newDelay ex_env \<lparr>status = 503, headers = retry_after_headers ''2''\<rparr> 1 (Fin 3) io0 = (Fin 2, io0)"
    using T[THEN mp, OF ex_retry_after, THEN conjunct1] by simp
  have b: "fst (getDelay ex_env (handler_of default_options (\<lambda>k. answer 503 (retry_after_headers ''2'')))
            \<lparr>status = 503, headers = retry_after_headers ''2''\<rparr> 1 (Fin 3) io0) = Fin 2"
    using T[THEN mp, OF ex_retry_after, THEN conjunct2, THEN conjunct2, THEN conjunct2, THEN conjunct2] a
    by simp
  have c: "fst (newDelay ex_env \<lparr>status = 503, headers = retry_after_headers ''Wed, 21 Oct 2015 07:28:07 GMT''\<rparr>
            1 (Fin 3) io0) = Fin 7"
    using U[THEN mp, OF ex_retry_after, THEN conjunct2, THEN conjunct1] by simp
  from a b c show ?thesis by (intro conjI)
qed

text \<open>
  Claim C5, as the code has it. Without a \<^verbatim>\<open>Retry-After\<close> hint, the computed raw delay
  is \<open>round (0.5 * (2 ^ n - 1)) + base + jitter\<close> when the attempt number \<open>n\<close> is at
  least 2 and \<open>base + jitter\<close> otherwise, where the jitter is a random number of the
  interval from 0 to 1, rounded to three decimals. The returned delay is the minimum of
  the computed delay and of the maximum delay plus a second jitter value, drawn
  separately for the cap; it never exceeds the maximum delay plus that second value.
\<close>

theorem backoff_delay:
  assumes "retryAfter resp = None"
    and "dly = Fin b"
    and "maxDelay (handler_options H) = Fin m"
    and "0 \<le> Math_random E (draws s) \<and> Math_random E (draws s) < 1"
    and "jitter = toFixed3 (Math_random E (draws s))"
    and "jitter' = toFixed3 (Math_random E (draws s + 1))"
    and "computedDelay =
           (if 2 \<le> n then of_int \<lfloor>(1 / 2 :: real) * (2 ^ n - 1) + 1 / 2\<rfloor> + b + jitter
            else b + jitter)"
  shows "0 \<le> jitter \<and> jitter \<le> 1
      \<and> jitter * 1000 = of_int \<lfloor>Math_random E (draws s) * 1000 + 1 / 2\<rfloor>
      \<and> fst (newDelay E resp n dly s) = Fin computedDelay
      \<and> fst (getDelay E H resp n dly s) = Fin (min computedDelay (m + jitter'))
      \<and> min computedDelay (m + jitter') \<le> m + jitter'"
proof -
  have nd: "fst (newDelay E resp n dly s) = Fin computedDelay"
    using assms(2,5,7) by (simp add: newDelay_no_hint[OF assms(1)] getExponentialBackOffTime_def)
  have gd: "fst (getDelay E H resp n dly s) = Fin (min computedDelay (m + jitter'))"
    using nd assms(3,6) by (simp add: getDelay_unfold newDelay_no_hint[OF assms(1)])
  from assms(4,5) have "0 \<le> jitter" "jitter \<le> 1"
    by (simp_all add: toFixed3_nonneg toFixed3_le_one)
  with nd gd assms(5) show ?thesis
    by (simp add: toFixed3_thousandths)
qed

theorem backoff_delay_witness:
  "fst (newDelay ex_env \<lparr>status = 503, headers = None\<rparr> 3 (Fin 1) io0) = Fin (4 + 1 + 9 / 10)
   \<and> fst (getDelay ex_env (handler_of default_options (\<lambda>k. answer 503 None))
            \<lparr>status = 503, headers = None\<rparr> 3 (Fin 1) io0) = Fin (4 + 1 + 9 / 10)
   \<and> fst (getDelay ex_env (handler_of default_options (\<lambda>k. answer 503 None))
            \<lparr>status = 503, headers = None\<rparr> 9 (Fin 3) io0) = Fin (180 + 1 / 10)"
proof -
  have r: "0 \<le> Math_random ex_env (draws io0) \<and> Math_random ex_env (draws io0) < 1"
    by simp
  have j: "(9 / 10 :: real) = toFixed3 (Math_random ex_env (draws io0))"
    by (simp add: toFixed3_def)
  have j': "(1 / 10 :: real) = toFixed3 (Math_random ex_env (draws io0 + 1))"
    by (simp add: toFixed3_def)
  have c3: "(4 + 1 + 9 / 10 :: real)
      = (if 2 \<le> (3 :: nat) then of_int \<lfloor>(1 / 2 :: real) * (2 ^ 3 - 1) + 1 / 2\<rfloor> + 1 + 9 / 10
         else 1 + 9 / 10)"
    by simp
  have c9: "(256 + 3 + 9 / 10 :: real)
      = (if 2 \<le> (9 :: nat) then of_int \<lfloor>(1 / 2 :: real) * (2 ^ 9 - 1) + 1 / 2\<rfloor> + 3 + 9 / 10
         else 3 + 9 / 10)"
    by simp
  have m: "maxDelay (handler_options (handler_of default_options (\<lambda>k. answer 503 None))) = Fin 180"
    by simp
  have n: "retryAfter \<lparr>status = 503, headers = None\<rparr> = None"
    by simp
  note T3 = backoff_delay[OF n refl m r j j' c3]
  note T9 = backoff_delay[OF n refl m r j j' c9]
  have a: "fst (newDelay ex_env \<lparr>status = 503, headers = None\<rparr> 3 (Fin 1) io0) = Fin (4 + 1 + 9 / 10)"
    using T3 by blast
  have b: "fst (getDelay ex_env (handler_of default_options (\<lambda>k. answer 503 None))
            \<lparr>status = 503, headers = None\<rparr> 3 (Fin 1) io0) = Fin (min (4 + 1 + 9 / 10) (180 + 1 / 10))"
    using T3 by blast
  have c: "fst (getDelay ex_env (handler_of default_options (\<lambda>k. answer 503 None))
            \<lparr>status = 503, headers = None\<rparr> 9 (Fin 3) io0) = Fin (min (256 + 3 + 9 / 10) (180 + 1 / 10))"
    using T9 by blast
  from a b c show ?thesis by simp
qed

text \<open>
  Claim C5 as stated fails: with the jitter of the raw delay also taken for the cap,
  the returned delay would never exceed the maximum delay plus that jitter. At attempt 9
  with the default options and random numbers 0.1 and 0.9, the jitter of the raw delay
  is 0.1 and the code returns 180.9, above 180 + 0.1.
\<close>

theorem backoff_cap_counterexample:
  "toFixed3 (Math_random ex_env (draws (io0\<lparr>draws := 1\<rparr>))) = 1 / 10
   \<and> fst (newDelay ex_env \<lparr>status = 503, headers = None\<rparr> 9 (Fin 3) (io0\<lparr>draws := 1\<rparr>))
       = Fin (256 + 3 + 1 / 10)
   \<and> fst (getDelay ex_env always_503 \<lparr>status = 503, headers = None\<rparr> 9 (Fin 3)
            (io0\<lparr>draws := 1\<rparr>))
       = Fin (180 + 9 / 10)
   \<and> fst (getDelay ex_env always_503 \<lparr>status = 503, headers = None\<rparr> 9 (Fin 3)
            (io0\<lparr>draws := 1\<rparr>))
       \<noteq> Fin (min (256 + 3 + 1 / 10) (180 + 1 / 10))
   \<and> fst (getDelay_one_draw ex_env always_503 \<lparr>status = 503, headers = None\<rparr> 9 (Fin 3)
            (io0\<lparr>draws := 1\<rparr>))
       = Fin (180 + 1 / 10)
   \<and> \<not> (180 + 9 / 10 \<le> (180 + 1 / 10 :: real))"
proof -
  have j: "toFixed3 (Math_random ex_env (draws (io0\<lparr>draws := 1\<rparr>))) = 1 / 10"
    by (simp add: toFixed3_def)
  have nd: "fst (newDelay ex_env \<lparr>status = 503, headers = None\<rparr> 9 (Fin 3) (io0\<lparr>draws := 1\<rparr>))
       = Fin (256 + 3 + 1 / 10)"
    by (simp add: newDelay_no_hint getExponentialBackOffTime_def toFixed3_def)
  have gd: "fst (getDelay ex_env always_503 \<lparr>status = 503, headers = None\<rparr> 9 (Fin 3)
            (io0\<lparr>draws := 1\<rparr>))
       = Fin (180 + 9 / 10)"
    by (simp add: getDelay_unfold newDelay_no_hint getExponentialBackOffTime_def toFixed3_def
        always_503_def)
  have od: "fst (getDelay_one_draw ex_env always_503 \<lparr>status = 503, headers = None\<rparr> 9 (Fin 3)
            (io0\<lparr>draws := 1\<rparr>))
       = Fin (180 + 1 / 10)"
    by (simp add: getDelay_one_draw_def Let_def getRandomness_def getExponentialBackOffTime_def
        toFixed3_def always_503_def)
  from j nd gd od show ?thesis by simp
qed

text \<open>
  Claim C10. The cap applies to every computed delay, without a condition: the
  returned delay is always the minimum of the computed delay and of the maximum delay
  plus jitter. With a \<^verbatim>\<open>Retry-After\<close> hint, numeric or a date, that exceeds the maximum
  delay plus jitter, the returned delay is the cap, not the hint.
\<close>

theorem cap_applies_to_hint:
  "fst (getDelay E H resp n dly s)
     = Math_min (fst (newDelay E resp n dly s))
         (js_add (maxDelay (handler_options H))
            (Fin (toFixed3 (Math_random E (draws (snd (newDelay E resp n dly s)))))))
   \<and> (retryAfter resp = Some ra \<and> maxDelay (handler_options H) = Fin m \<longrightarrow>
        (fst (newDelay E resp n dly s) = Fin h
           \<and> m + toFixed3 (Math_random E (draws s)) < h \<longrightarrow>
         fst (getDelay E H resp n dly s) = Fin (m + toFixed3 (Math_random E (draws s))))
      \<and> (fst (newDelay E resp n dly s) = PInf \<longrightarrow>
         fst (getDelay E H resp n dly s) = Fin (m + toFixed3 (Math_random E (draws s)))))"
proof (intro conjI impI)
  show "fst (getDelay E H resp n dly s)
     = Math_min (fst (newDelay E resp n dly s))
         (js_add (maxDelay (handler_options H))
            (Fin (toFixed3 (Math_random E (draws (snd (newDelay E resp n dly s)))))))"
    by (simp add: getDelay_unfold)
next
  assume h: "retryAfter resp = Some ra \<and> maxDelay (handler_options H) = Fin m"
  then have d: "draws (snd (newDelay E resp n dly s)) = draws s"
    by (simp add: newDelay_hint)
  show "fst (getDelay E H resp n dly s) = Fin (m + toFixed3 (Math_random E (draws s)))"
    if "fst (newDelay E resp n dly s) = Fin h \<and> m + toFixed3 (Math_random E (draws s)) < h"
    using that h by (simp add: getDelay_unfold d)
  show "fst (getDelay E H resp n dly s) = Fin (m + toFixed3 (Math_random E (draws s)))"
    if "fst (newDelay E resp n dly s) = PInf"
    using that h by (simp add: getDelay_unfold d)
qed

theorem cap_applies_to_hint_witness:
  "fst (getDelay ex_env (handler_of default_options (\<lambda>k. answer 503 (retry_after_headers ''500'')))
          \<lparr>status = 503, headers = retry_after_headers ''500''\<rparr> 1 (Fin 3) io0) = Fin (180 + 9 / 10)"
proof -
  have nd: "fst (newDelay ex_env \<lparr>status = 503, headers = retry_after_headers ''500''\<rparr> 1 (Fin 3) io0) = Fin 500"
    by (simp add: newDelay_hint)
  show ?thesis
    using cap_applies_to_hint[of ex_env "handler_of default_options (\<lambda>k. answer 503 (retry_after_headers ''500''))"
      "\<lparr>status = 503, headers = retry_after_headers ''500''\<rparr>" 1 "Fin 3" io0 "''500''" 180 500,
      THEN conjunct2, THEN mp, THEN conjunct1, THEN mp] nd
    by (simp add: toFixed3_def)
qed

lemma always_503_simps [simp]:
  "handler_options always_503 = default_options"
  "next_execute always_503 k = answer 503 None"
  "getRequestHeader always_503 = lookup_header"
  "setRequestHeader always_503 = stamp_header"
  by (simp_all add: always_503_def)

lemma soon_then_ok_simps [simp]:
  "handler_options soon_then_ok = default_options"
  "next_execute soon_then_ok k
     = (if k = 0 then answer 503 (retry_after_headers ''soon'') else answer 200 None)"
  "getRequestHeader soon_then_ok = lookup_header"
  "setRequestHeader soon_then_ok = stamp_header"
  by (simp_all add: soon_then_ok_def)

text \<open>
  Claim C7, as the code has it. Without a \<^verbatim>\<open>Retry-After\<close> hint one delay computation
  draws two jitter values: the first is added to the raw backoff delay, the second to
  the maximum delay in the cap. With a hint it draws exactly one, used in the cap
  only.
\<close>

theorem jitter_draws:
  "(retryAfter resp = None \<longrightarrow>
      draws (snd (getDelay E H resp n dly s)) = draws s + 2
      \<and> fst (getDelay E H resp n dly s)
          = Math_min
              (js_add (if 2 \<le> n then js_add (getExponentialBackOffTime n) dly else dly)
                 (Fin (toFixed3 (Math_random E (draws s)))))
              (js_add (maxDelay (handler_options H))
                 (Fin (toFixed3 (Math_random E (draws s + 1))))))
   \<and> (retryAfter resp = Some ra \<longrightarrow>
      draws (snd (getDelay E H resp n dly s)) = draws s + 1
      \<and> fst (getDelay E H resp n dly s)
          = Math_min (fst (newDelay E resp n dly s))
              (js_add (maxDelay (handler_options H))
                 (Fin (toFixed3 (Math_random E (draws s))))))"
  by (simp add: getDelay_unfold newDelay_no_hint newDelay_hint)

theorem jitter_draws_witness:
  "draws (snd (getDelay ex_env always_503
                 \<lparr>status = 503, headers = None\<rparr> 9 (Fin 3) io0)) = 2
   \<and> draws (snd (getDelay ex_env always_503
                 \<lparr>status = 503, headers = retry_after_headers ''2''\<rparr> 1 (Fin 3) io0)) = 1"
  using jitter_draws[of "\<lparr>status = 503, headers = None\<rparr>" ex_env
      always_503 9 "Fin 3" io0 "''2''"]
    jitter_draws[of "\<lparr>status = 503, headers = retry_after_headers ''2''\<rparr>" ex_env
      always_503 1 "Fin 3" io0 "''2''"]
  by simp

text \<open>
  Claim C7 as stated fails: at attempt 9 with the default options and random numbers
  0.9 and 0.1, the code draws twice and returns 180.1, where a single draw used for
  both the raw delay and the cap gives 180.9.
\<close>

theorem single_draw_counterexample:
  "getDelay ex_env always_503
      \<lparr>status = 503, headers = None\<rparr> 9 (Fin 3) io0
     = (Fin (180 + 1 / 10), io0\<lparr>draws := 2\<rparr>)
   \<and> getDelay_one_draw ex_env always_503
      \<lparr>status = 503, headers = None\<rparr> 9 (Fin 3) io0
     = (Fin (180 + 9 / 10), io0\<lparr>draws := 1\<rparr>)
   \<and> getDelay ex_env always_503
      \<lparr>status = 503, headers = None\<rparr> 9 (Fin 3) io0
     \<noteq> getDelay_one_draw ex_env always_503
      \<lparr>status = 503, headers = None\<rparr> 9 (Fin 3) io0"
proof -
  have a: "getDelay ex_env always_503
      \<lparr>status = 503, headers = None\<rparr> 9 (Fin 3) io0
     = (Fin (180 + 1 / 10), io0\<lparr>draws := 2\<rparr>)"
    by (simp add: getDelay_unfold newDelay_no_hint getExponentialBackOffTime_def toFixed3_def)
  have b: "getDelay_one_draw ex_env always_503
      \<lparr>status = 503, headers = None\<rparr> 9 (Fin 3) io0
     = (Fin (180 + 9 / 10), io0\<lparr>draws := 1\<rparr>)"
    by (simp add: getDelay_one_draw_def Let_def getRandomness_def getExponentialBackOffTime_def
        toFixed3_def)
  from a b show ?thesis by simp
qed

text \<open>The payload check passes for every request.\<close>

lemma isBuffered_holds: "isBuffered H req opts"
  by (cases opts) (simp_all add: isBuffered_def jsval_of_options_def)

text \<open>
  Claim C4, as the code has it. When the \<^verbatim>\<open>Retry-After\<close> value is not a number and its
  date is invalid, the delay computation returns not-a-number as the delay and raises
  nothing; an approved retry then goes on, with not-a-number passed to \<^verbatim>\<open>sleep\<close>.
\<close>

theorem invalid_date_delay:
  "retryAfter resp = Some ra \<and> isNaN (Number_of E ra) \<and> Date_getTime E ra = NaN \<longrightarrow>
     getDelay E H resp n dly s = (NaN, s\<lparr>clock_reads := clock_reads s + 1, draws := draws s + 1\<rparr>)
     \<and> (next_execute H (calls s) ctx = Inr ctx1 \<and> response ctx1 = Some resp
          \<and> retryAttempts < maxRetries opts \<and> retry_condition H ctx1 resp retryAttempts opts \<longrightarrow>
        executeWithRetry E H ctx retryAttempts opts s
          = executeWithRetry E H (stamp_attempt H ctx1 (retryAttempts + 1)) (retryAttempts + 1) opts
              (s\<lparr>calls := calls s + 1, clock_reads := clock_reads s + 1, draws := draws s + 1,
                 sleeps := sleeps s @ [NaN]\<rparr>))"
proof (intro impI conjI)
  assume h: "retryAfter resp = Some ra \<and> isNaN (Number_of E ra) \<and> Date_getTime E ra = NaN"
  show g: "getDelay E H resp n dly s = (NaN, s\<lparr>clock_reads := clock_reads s + 1, draws := draws s + 1\<rparr>)"
    for n dly s
    using h by (simp add: getDelay_unfold newDelay_hint js_sub_def)
  assume "next_execute H (calls s) ctx = Inr ctx1 \<and> response ctx1 = Some resp
          \<and> retryAttempts < maxRetries opts \<and> retry_condition H ctx1 resp retryAttempts opts"
  then show "executeWithRetry E H ctx retryAttempts opts s
          = executeWithRetry E H (stamp_attempt H ctx1 (retryAttempts + 1)) (retryAttempts + 1) opts
              (s\<lparr>calls := calls s + 1, clock_reads := clock_reads s + 1, draws := draws s + 1,
                 sleeps := sleeps s @ [NaN]\<rparr>)"
    using executeWithRetry_retry[of H s ctx ctx1 resp retryAttempts opts E]
    by (simp add: g sleep_def)
qed

theorem invalid_date_delay_witness:
  "getDelay ex_env soon_then_ok \<lparr>status = 503, headers = retry_after_headers ''soon''\<rparr> 1 (Fin 3) io0
     = (NaN, io0\<lparr>clock_reads := clock_reads io0 + 1, draws := draws io0 + 1\<rparr>)
   \<and> executeWithRetry ex_env soon_then_ok get_ctx 0 default_options io0
     = executeWithRetry ex_env soon_then_ok
         (stamp_attempt soon_then_ok
            (get_ctx\<lparr>response := Some \<lparr>status = 503, headers = retry_after_headers ''soon''\<rparr>\<rparr>)
            (0 + 1))
         (0 + 1) default_options
         (io0\<lparr>calls := calls io0 + 1, clock_reads := clock_reads io0 + 1,
              draws := draws io0 + 1, sleeps := sleeps io0 @ [NaN]\<rparr>)"
proof -
  have h: "retryAfter \<lparr>status = 503, headers = retry_after_headers ''soon''\<rparr> = Some ''soon''
      \<and> isNaN (Number_of ex_env ''soon'') \<and> Date_getTime ex_env ''soon'' = NaN"
    by simp
  have k: "next_execute soon_then_ok (calls io0) get_ctx
        = Inr (get_ctx\<lparr>response := Some \<lparr>status = 503, headers = retry_after_headers ''soon''\<rparr>\<rparr>)
      \<and> response (get_ctx\<lparr>response := Some \<lparr>status = 503, headers = retry_after_headers ''soon''\<rparr>\<rparr>)
        = Some \<lparr>status = 503, headers = retry_after_headers ''soon''\<rparr>
      \<and> 0 < maxRetries default_options
      \<and> retry_condition soon_then_ok
          (get_ctx\<lparr>response := Some \<lparr>status = 503, headers = retry_after_headers ''soon''\<rparr>\<rparr>)
          \<lparr>status = 503, headers = retry_after_headers ''soon''\<rparr> 0 default_options"
    by (simp add: answer_def retry_condition_def isRetry_iff isBuffered_holds)
  note T = invalid_date_delay[of "\<lparr>status = 503, headers = retry_after_headers ''soon''\<rparr>" "''soon''"
      ex_env soon_then_ok 1 "Fin 3" io0 get_ctx
      "get_ctx\<lparr>response := Some \<lparr>status = 503, headers = retry_after_headers ''soon''\<rparr>\<rparr>"
      0 default_options, THEN mp, OF h]
  from T[THEN conjunct1] T[THEN conjunct2, THEN mp, OF k] show ?thesis by (intro conjI)
qed

text \<open>
  Claim C4 as stated fails: for a 503 response with \<^verbatim>\<open>Retry-After: soon\<close> the delay
  computation returns not-a-number, and the exchange ends normally after a sleep of
  not-a-number and a second invocation.
\<close>

theorem invalid_date_counterexample:
  "getDelay ex_env soon_then_ok \<lparr>status = 503, headers = retry_after_headers ''soon''\<rparr> 1 (Fin 3)
       (io0\<lparr>calls := 1\<rparr>)
     = (NaN, \<lparr>calls = 1, draws = 1, clock_reads = 1, sleeps = []\<rparr>)
   \<and> execute ex_env soon_then_ok get_ctx io0
     = (Inr \<lparr>request = RequestUrl ''https://example.org/items'',
             options = Some \<lparr>init_method = Some ''GET'', init_headers = [(''Retry-Attempt'', ''1'')]\<rparr>,
             response = Some \<lparr>status = 200, headers = None\<rparr>,
             middlewareControl = None\<rparr>,
        \<lparr>calls = 2, draws = 1, clock_reads = 1, sleeps = [NaN]\<rparr>)"
proof -
  have g: "getDelay ex_env soon_then_ok \<lparr>status = 503, headers = retry_after_headers ''soon''\<rparr> 1 (Fin 3)
       (io0\<lparr>calls := 1\<rparr>)
     = (NaN, \<lparr>calls = 1, draws = 1, clock_reads = 1, sleeps = []\<rparr>)"
    by (simp add: getDelay_unfold newDelay_hint js_sub_def io0_def)
  have one: "execute ex_env soon_then_ok get_ctx io0
     = executeWithRetry ex_env soon_then_ok
         (stamp_attempt soon_then_ok (get_ctx\<lparr>response := Some \<lparr>status = 503, headers = retry_after_headers ''soon''\<rparr>\<rparr>) 1)
         1 default_options \<lparr>calls = 1, draws = 1, clock_reads = 1, sleeps = [NaN]\<rparr>"
    unfolding execute_def
    apply (subst executeWithRetry.simps)
    apply (simp add: get_ctx_def answer_def retry_condition_def isRetry_iff isBuffered_holds g[simplified] sleep_def)
    done
  have two: "executeWithRetry ex_env soon_then_ok
         (stamp_attempt soon_then_ok (get_ctx\<lparr>response := Some \<lparr>status = 503, headers = retry_after_headers ''soon''\<rparr>\<rparr>) 1)
         1 default_options \<lparr>calls = 1, draws = 1, clock_reads = 1, sleeps = [NaN]\<rparr>
     = (Inr \<lparr>request = RequestUrl ''https://example.org/items'',
             options = Some \<lparr>init_method = Some ''GET'', init_headers = [(''Retry-Attempt'', ''1'')]\<rparr>,
             response = Some \<lparr>status = 200, headers = None\<rparr>,
             middlewareControl = None\<rparr>,
        \<lparr>calls = 2, draws = 1, clock_reads = 1, sleeps = [NaN]\<rparr>)"
    apply (subst executeWithRetry.simps)
    apply (simp add: get_ctx_def answer_def retry_condition_def isRetry_iff stamp_attempt_def
        stamp_header_def RETRY_ATTEMPT_HEADER_def toString.simps digit_char_def)
    done
  from g one two show ?thesis by simp
qed

text \<open>The backoff time is not negative, and a sum of two such numbers is not either.\<close>

lemma backoff_nonnegative: "nonnegative (getExponentialBackOffTime n)"
proof -
  have "(1::real) \<le> 2 ^ n" by simp
  then have "0 \<le> (1 / 2 :: real) * (2 ^ n - 1) + 1 / 2" by simp
  then show ?thesis by (simp add: getExponentialBackOffTime_def)
qed

lemma js_add_nonnegative:
  "nonnegative x \<Longrightarrow> nonnegative y \<Longrightarrow> nonnegative (js_add x y)"
  by (cases x; cases y) simp_all

text \<open>
  Claim C8, as the code has it. With a maximum delay that is not negative, the returned
  delay is non-negative exactly when the computed delay is: always without a hint
  (for a base delay that is not negative), and with a hint exactly when the hinted
  number, or the rounded difference of the hinted date and now, is not negative. A
  negative hinted number is returned as it is.
\<close>

theorem delay_sign:
  "maxDelay (handler_options H) = Fin m \<and> 0 \<le> m \<and> (\<forall>k. 0 \<le> Math_random E k) \<longrightarrow>
     nonnegative (fst (getDelay E H resp n dly s)) = nonnegative (fst (newDelay E resp n dly s))
     \<and> (retryAfter resp = None \<and> nonnegative dly \<longrightarrow>
          nonnegative (fst (getDelay E H resp n dly s)))
     \<and> (retryAfter resp = Some ra \<and> Number_of E ra = Fin x \<longrightarrow>
          nonnegative (fst (getDelay E H resp n dly s)) = (0 \<le> x)
          \<and> (x < 0 \<longrightarrow> fst (getDelay E H resp n dly s) = Fin x))
     \<and> (retryAfter resp = Some ra \<and> isNaN (Number_of E ra) \<and> Date_getTime E ra = Fin t \<longrightarrow>
          nonnegative (fst (getDelay E H resp n dly s))
            = (0 \<le> \<lfloor>(t - Date_now E (clock_reads s)) / 1000 + 1 / 2\<rfloor>))"
proof
  assume h: "maxDelay (handler_options H) = Fin m \<and> 0 \<le> m \<and> (\<forall>k. 0 \<le> Math_random E k)"
  have cap: "0 \<le> m + toFixed3 (Math_random E k)" for k
    using h toFixed3_nonneg[of "Math_random E k"] by simp
  have A: "nonnegative (fst (getDelay E H resp n dly s)) = nonnegative (fst (newDelay E resp n dly s))"
    using h by (simp add: getDelay_unfold Math_min_nonnegative[OF cap])
  have B: "nonnegative (fst (getDelay E H resp n dly s))"
    if "retryAfter resp = None \<and> nonnegative dly"
  proof -
    have j: "nonnegative (Fin (toFixed3 (Math_random E (draws s))))"
      using h by (simp add: toFixed3_nonneg)
    from that j have "nonnegative (fst (newDelay E resp n dly s))"
      by (auto simp: newDelay_no_hint intro!: js_add_nonnegative backoff_nonnegative)
    with A show ?thesis by simp
  qed
  have C: "nonnegative (fst (getDelay E H resp n dly s)) = (0 \<le> x)
          \<and> (x < 0 \<longrightarrow> fst (getDelay E H resp n dly s) = Fin x)"
    if "retryAfter resp = Some ra \<and> Number_of E ra = Fin x"
  proof -
    from that have nd: "newDelay E resp n dly s = (Fin x, s)" by (simp add: newDelay_hint)
    have "fst (getDelay E H resp n dly s) = Fin x" if "x < 0"
      using that h cap[of "draws s"] by (simp add: getDelay_unfold nd)
    with A nd show ?thesis by simp
  qed
  have D: "nonnegative (fst (getDelay E H resp n dly s))
            = (0 \<le> \<lfloor>(t - Date_now E (clock_reads s)) / 1000 + 1 / 2\<rfloor>)"
    if "retryAfter resp = Some ra \<and> isNaN (Number_of E ra) \<and> Date_getTime E ra = Fin t"
    using that A by (simp add: newDelay_hint js_sub_def)
  from A B C D show "nonnegative (fst (getDelay E H resp n dly s)) = nonnegative (fst (newDelay E resp n dly s))
     \<and> (retryAfter resp = None \<and> nonnegative dly \<longrightarrow>
          nonnegative (fst (getDelay E H resp n dly s)))
     \<and> (retryAfter resp = Some ra \<and> Number_of E ra = Fin x \<longrightarrow>
          nonnegative (fst (getDelay E H resp n dly s)) = (0 \<le> x)
          \<and> (x < 0 \<longrightarrow> fst (getDelay E H resp n dly s) = Fin x))
     \<and> (retryAfter resp = Some ra \<and> isNaN (Number_of E ra) \<and> Date_getTime E ra = Fin t \<longrightarrow>
          nonnegative (fst (getDelay E H resp n dly s))
            = (0 \<le> \<lfloor>(t - Date_now E (clock_reads s)) / 1000 + 1 / 2\<rfloor>))"
    by blast
qed

theorem delay_sign_witness:
  "nonnegative (fst (getDelay ex_env always_503 \<lparr>status = 503, headers = None\<rparr> 3 (Fin 1) io0))
   \<and> nonnegative (fst (getDelay ex_env always_503
        \<lparr>status = 503, headers = retry_after_headers ''2''\<rparr> 1 (Fin 3) io0))
   \<and> fst (getDelay ex_env always_503
        \<lparr>status = 503, headers = retry_after_headers ''-5''\<rparr> 1 (Fin 3) io0) = Fin (- 5)
   \<and> \<not> nonnegative (fst (getDelay ex_env always_503
        \<lparr>status = 503, headers = retry_after_headers ''Wed, 21 Oct 2015 07:27:50 GMT''\<rparr> 1 (Fin 3) io0))"
proof -
  have h: "maxDelay (handler_options always_503) = Fin 180 \<and> (0::real) \<le> 180
      \<and> (\<forall>k. 0 \<le> Math_random ex_env k)"
    by simp
  have a: "nonnegative (fst (getDelay ex_env always_503 \<lparr>status = 503, headers = None\<rparr> 3 (Fin 1) io0))"
    using delay_sign[of always_503 180 ex_env "\<lparr>status = 503, headers = None\<rparr>" 3 "Fin 1" io0
        "''2''" 2 0, THEN mp, OF h, THEN conjunct2, THEN conjunct1]
    by simp
  have b: "nonnegative (fst (getDelay ex_env always_503
        \<lparr>status = 503, headers = retry_after_headers ''2''\<rparr> 1 (Fin 3) io0))"
    using delay_sign[of always_503 180 ex_env "\<lparr>status = 503, headers = retry_after_headers ''2''\<rparr>"
        1 "Fin 3" io0 "''2''" 2 0, THEN mp, OF h, THEN conjunct2, THEN conjunct2, THEN conjunct1]
    by simp
  have c: "fst (getDelay ex_env always_503
        \<lparr>status = 503, headers = retry_after_headers ''-5''\<rparr> 1 (Fin 3) io0) = Fin (- 5)"
    using delay_sign[of always_503 180 ex_env "\<lparr>status = 503, headers = retry_after_headers ''-5''\<rparr>"
        1 "Fin 3" io0 "''-5''" "- 5" 0, THEN mp, OF h, THEN conjunct2, THEN conjunct2, THEN conjunct1]
    by simp
  have d: "\<not> nonnegative (fst (getDelay ex_env always_503
        \<lparr>status = 503, headers = retry_after_headers ''Wed, 21 Oct 2015 07:27:50 GMT''\<rparr> 1 (Fin 3) io0))"
    using delay_sign[of always_503 180 ex_env
        "\<lparr>status = 503, headers = retry_after_headers ''Wed, 21 Oct 2015 07:27:50 GMT''\<rparr>"
        1 "Fin 3" io0 "''Wed, 21 Oct 2015 07:27:50 GMT''" 0 1445412470000,
        THEN mp, OF h, THEN conjunct2, THEN conjunct2, THEN conjunct2]
    by simp
  from a b c d show ?thesis by (intro conjI)
qed

text \<open>
  Claim C8 as stated fails: \<^verbatim>\<open>Retry-After: -5\<close> gives a delay of -5 seconds, and a date
  10 seconds in the past gives -10.
\<close>

theorem negative_delay_counterexample:
  "fst (getDelay ex_env always_503
        \<lparr>status = 503, headers = retry_after_headers ''-5''\<rparr> 1 (Fin 3) io0) = Fin (- 5)
   \<and> \<not> nonnegative (fst (getDelay ex_env always_503
        \<lparr>status = 503, headers = retry_after_headers ''-5''\<rparr> 1 (Fin 3) io0))
   \<and> fst (getDelay ex_env always_503
        \<lparr>status = 503, headers = retry_after_headers ''Wed, 21 Oct 2015 07:27:50 GMT''\<rparr> 1 (Fin 3) io0)
       = Fin (- 10)"
  by (simp add: getDelay_unfold newDelay_hint js_sub_def toFixed3_def)

text \<open>
  Claim C1, evaluated on the code. \<open>isBuffered\<close> returns true for every request, a
  POST with content type \<^verbatim>\<open>application/octet-stream\<close> included: the value compared
  with the method names is the options object, never equal to a string. Such a POST
  answered with 503 is invoked four times under the default options.
\<close>

theorem isBuffered_stream_post:
  "isBuffered H req opts
   \<and> init_method post_stream_init = Some ''POST''
   \<and> lookup_header (request post_stream_ctx) (options post_stream_ctx) ''Content-Type''
       = Some ''application/octet-stream''
   \<and> isBuffered always_503 (request post_stream_ctx) (options post_stream_ctx)
   \<and> calls (snd (execute ex_env always_503 post_stream_ctx io0)) = 4"
proof -
  have "calls (snd (executeWithRetry ex_env always_503 post_stream_ctx 0 default_options io0))
      = calls io0 + 1 + (maxRetries default_options - 0)"
    unfolding always_503_def by (rule executeWithRetry_all_retry[OF answer_503_all_retry]) simp
  then have "calls (snd (execute ex_env always_503 post_stream_ctx io0)) = 4"
    by (simp add: execute_def post_stream_ctx_def)
  then show ?thesis
    by (simp add: isBuffered_holds post_stream_init_def post_stream_ctx_def lookup_header_def)
qed

text \<open>
  Claim C6, evaluated on the code. For a POST with content type
  \<^verbatim>\<open>application/octet-stream\<close> answered with 503 under the default options, three of the
  four conditions hold and the fourth fails: the payload is not replayable. The code
  approves the retry all the same, since its payload check \<open>isBuffered\<close> returns true:
  a second invocation follows the first, and four take place in all.
\<close>

theorem retry_approved_for_stream_post:
  "next_execute always_503 (calls io0) post_stream_ctx
     = Inr (post_stream_ctx\<lparr>response := Some \<lparr>status = 503, headers = None\<rparr>\<rparr>)
   \<and> 0 < maxRetries default_options
   \<and> isRetry \<lparr>status = 503, headers = None\<rparr>
   \<and> shouldRetry default_options (delay default_options) 0
        (request post_stream_ctx) (options post_stream_ctx) \<lparr>status = 503, headers = None\<rparr>
   \<and> init_method post_stream_init = Some ''POST''
   \<and> \<not> isPayloadReplayable always_503 ''POST'' (request post_stream_ctx) (options post_stream_ctx)
   \<and> isBuffered always_503 (request post_stream_ctx) (options post_stream_ctx)
   \<and> calls io0 + 1
        < calls (snd (executeWithRetry ex_env always_503 post_stream_ctx 0 default_options io0))
   \<and> calls (snd (executeWithRetry ex_env always_503 post_stream_ctx 0 default_options io0)) = 4"
proof -
  have nx: "next_execute always_503 (calls io0) post_stream_ctx
       = Inr (post_stream_ctx\<lparr>response := Some \<lparr>status = 503, headers = None\<rparr>\<rparr>)
     \<and> response (post_stream_ctx\<lparr>response := Some \<lparr>status = 503, headers = None\<rparr>\<rparr>)
       = Some \<lparr>status = 503, headers = None\<rparr>"
    by (simp add: answer_def)
  have three: "0 < maxRetries default_options \<and> isRetry \<lparr>status = 503, headers = None\<rparr>
     \<and> shouldRetry default_options (delay default_options) 0
          (request post_stream_ctx) (options post_stream_ctx) \<lparr>status = 503, headers = None\<rparr>"
    by (simp add: isRetry_iff)
  have spec: "\<not> isPayloadReplayable always_503 ''POST'' (request post_stream_ctx)
      (options post_stream_ctx)"
    by (simp add: isPayloadReplayable_def HttpMethod_POST_def post_stream_ctx_def
        post_stream_init_def lookup_header_def)
  have code: "isBuffered always_503
      (request (post_stream_ctx\<lparr>response := Some \<lparr>status = 503, headers = None\<rparr>\<rparr>))
      (options (post_stream_ctx\<lparr>response := Some \<lparr>status = 503, headers = None\<rparr>\<rparr>))"
    by (rule isBuffered_holds)
  have cond: "0 < maxRetries default_options \<and> isRetry \<lparr>status = 503, headers = None\<rparr>
     \<and> isBuffered always_503
          (request (post_stream_ctx\<lparr>response := Some \<lparr>status = 503, headers = None\<rparr>\<rparr>))
          (options (post_stream_ctx\<lparr>response := Some \<lparr>status = 503, headers = None\<rparr>\<rparr>))
     \<and> shouldRetry default_options (delay default_options) 0
          (request (post_stream_ctx\<lparr>response := Some \<lparr>status = 503, headers = None\<rparr>\<rparr>))
          (options (post_stream_ctx\<lparr>response := Some \<lparr>status = 503, headers = None\<rparr>\<rparr>))
          \<lparr>status = 503, headers = None\<rparr>"
    using code by (simp add: isRetry_iff)
  have more: "calls io0 + 1
      < calls (snd (executeWithRetry ex_env always_503 post_stream_ctx 0 default_options io0))"
    using executeWithRetry_approval[of always_503 io0 post_stream_ctx
        "post_stream_ctx\<lparr>response := Some \<lparr>status = 503, headers = None\<rparr>\<rparr>"
        "\<lparr>status = 503, headers = None\<rparr>" ex_env 0 default_options,
        THEN conjunct1, THEN mp, OF nx, THEN conjunct1] cond
    by blast
  have "calls (snd (executeWithRetry ex_env always_503 post_stream_ctx 0 default_options io0))
      = calls io0 + 1 + (maxRetries default_options - 0)"
    unfolding always_503_def by (rule executeWithRetry_all_retry[OF answer_503_all_retry]) simp
  then have four: "calls (snd (executeWithRetry ex_env always_503 post_stream_ctx 0
      default_options io0)) = 4"
    by simp
  have post: "init_method post_stream_init = Some ''POST''"
    by (simp add: post_stream_init_def)
  from nx three spec more four post isBuffered_holds[of always_503 "request post_stream_ctx"
      "options post_stream_ctx"]
  show ?thesis by (intro conjI) simp_all
qed

end
